theory Spec2Isabelle
  imports Complex_Main
begin

section \<open>Data model\<close>

text \<open>
  The types of \<^verbatim>\<open>mqttService\<close> as the form imports them. A JavaScript \<^verbatim>\<open>number\<close> is
  modelled as a real (the axis values) or an integer (\<^verbatim>\<open>Date.now()\<close>); a JavaScript
  string as a \<^typ>\<open>string\<close> in which a character stands for the UTF-16 code unit of the
  same number (U+0000 to U+00FF).
\<close>

record xyz =
  xyz_x :: real
  xyz_y :: real
  xyz_z :: real

record SensorData =
  acceleration :: xyz
  gyroscope :: xyz
  timestamp :: int

record MQTTConfig =
  brokerUrl :: string
  username :: "string option"
  password :: "string option"
  clientId :: string
  topic :: string

section \<open>Library functions of JavaScript\<close>

text \<open>
  \<^verbatim>\<open>String.prototype.trim\<close> removes the WhiteSpace and LineTerminator code units from
  both ends. Below U+0100 these are TAB, LF, VT, FF, CR, SPACE and NO-BREAK SPACE.
\<close>

definition isWhiteSpace :: "char \<Rightarrow> bool" where
  "isWhiteSpace ch = (of_char ch \<in> {9, 10, 11, 12, 13, 32, 160 :: nat})"

definition trim :: "string \<Rightarrow> string" where
  "trim s = rev (dropWhile isWhiteSpace (rev (dropWhile isWhiteSpace s)))"

text \<open>
  \<^verbatim>\<open>String.prototype.toLowerCase\<close> maps each code unit by the Unicode lower-case mapping.
  Below U+0100 the upper-case letters are A to Z and U+00C0 to U+00DE without the
  multiplication sign U+00D7; each has its lower-case form 32 places further on.
\<close>

definition lowerChar :: "char \<Rightarrow> char" where
  "lowerChar ch =
     (let n = (of_char ch :: nat)
      in if (65 \<le> n \<and> n \<le> 90) \<or> (192 \<le> n \<and> n \<le> 222 \<and> n \<noteq> 215)
         then char_of (n + 32) else ch)"

definition toLowerCase :: "string \<Rightarrow> string" where
  "toLowerCase s = map lowerChar s"

text \<open>
  The decimal digits of a natural number, as a template literal \<^verbatim>\<open>${n}\<close> prints an
  array length.
\<close>

fun numberToString :: "nat \<Rightarrow> string" where
  "numberToString n =
     (if n < 10 then [char_of (48 + n)]
      else numberToString (n div 10) @ [char_of (48 + n mod 10)])"

declare numberToString.simps [simp del]

definition integerToString :: "int \<Rightarrow> string" where
  "integerToString i =
     (if i < 0 then CHR ''-'' # numberToString (nat (- i)) else numberToString (nat i))"

section \<open>The form component: \<^verbatim>\<open>DataCollectionForm\<close>\<close>

text \<open>The argument object of a \<^verbatim>\<open>toast({...})\<close> call; \<^verbatim>\<open>variant\<close> is optional.\<close>

record toast_args =
  title :: string
  description :: string
  variant :: "string option"

text \<open>
  The component's \<^verbatim>\<open>useState\<close> cells and its \<^verbatim>\<open>useRef\<close> cell, and the toasts shown so
  far (the only output of the handlers besides the state). The \<^verbatim>\<open>disabled\<close> attributes
  of the buttons are not part of the model: every handler may be called in every state.
\<close>

record DataCollectionForm =
  selectedActivity :: string
  newActivity :: string
  activities :: "string list"
  isCollecting :: bool
  sensorData :: "SensorData list"
  showNewActivityInput :: bool
  chartDataRef :: "SensorData list"
  toasts :: "toast_args list"

definition DEFAULT_ACTIVITIES :: "string list" where
  "DEFAULT_ACTIVITIES = [''standing'', ''sitting'', ''walking'']"

definition initialForm :: DataCollectionForm where
  "initialForm =
     \<lparr>selectedActivity = [], newActivity = [], activities = DEFAULT_ACTIVITIES,
      isCollecting = False, sensorData = [], showNewActivityInput = False,
      chartDataRef = [], toasts = []\<rparr>"

definition toast :: "toast_args \<Rightarrow> DataCollectionForm \<Rightarrow> DataCollectionForm" where
  "toast t c = c\<lparr>toasts := toasts c @ [t]\<rparr>"

text \<open>
  \<^verbatim>\<open>handleSensorData\<close>: append, then keep the last 20. \<^verbatim>\<open>slice(n)\<close> with
  \<^verbatim>\<open>0 <= n <= length\<close> drops the first \<^verbatim>\<open>n\<close> elements; the branch is taken only when
  the length exceeds 20, so the subtraction does not truncate.
\<close>

definition handleSensorData :: "SensorData \<Rightarrow> DataCollectionForm \<Rightarrow> DataCollectionForm" where
  "handleSensorData data c =
     (let updatedData = chartDataRef c @ [data];
          current = (if length updatedData > 20
                     then drop (length updatedData - 20) updatedData
                     else updatedData)
      in c\<lparr>chartDataRef := current, sensorData := current\<rparr>)"

text \<open>The handler called once for each sample of a sequence, in arrival order.\<close>

fun deliver :: "SensorData list \<Rightarrow> DataCollectionForm \<Rightarrow> DataCollectionForm" where
  "deliver [] c = c"
| "deliver (d # ds) c = deliver ds (handleSensorData d c)"

text \<open>
  \<^verbatim>\<open>startCollection\<close> suspends at \<^verbatim>\<open>await mqttService.connect(...)\<close>. What it does to
  the form when the promise resolves, and when it is rejected; \<open>sel\<close> is the
  \<^verbatim>\<open>selectedActivity\<close> of the render whose handler was called.
\<close>

definition startCollection_resolved :: "string \<Rightarrow> DataCollectionForm \<Rightarrow> DataCollectionForm" where
  "startCollection_resolved sel c =
     toast \<lparr>title = ''Data Collection Started'',
            description = ''Recording data for '' @ sel, variant = None\<rparr>
       (c\<lparr>isCollecting := True, chartDataRef := [], sensorData := []\<rparr>)"

definition startCollection_rejected :: "DataCollectionForm \<Rightarrow> DataCollectionForm" where
  "startCollection_rejected c =
     toast \<lparr>title = ''Connection Error'',
            description = ''Failed to connect to MQTT broker'',
            variant = Some ''destructive''\<rparr> c"

text \<open>\<^verbatim>\<open>stopCollection\<close> after its \<^verbatim>\<open>await mqttService.disconnect()\<close>.\<close>

definition stopCollection_resolved :: "DataCollectionForm \<Rightarrow> DataCollectionForm" where
  "stopCollection_resolved c =
     toast \<lparr>title = ''Data Collection Stopped'',
            description = ''Collected '' @ numberToString (length (chartDataRef c))
              @ '' data points for '' @ selectedActivity c,
            variant = None\<rparr>
       (c\<lparr>isCollecting := False\<rparr>)"

definition saveData :: "DataCollectionForm \<Rightarrow> DataCollectionForm" where
  "saveData c =
     (if length (chartDataRef c) = 0
      then toast \<lparr>title = ''No Data'',
                  description = ''No data has been collected to save'',
                  variant = Some ''destructive''\<rparr> c
      else toast \<lparr>title = ''Data Saved'',
                  description = numberToString (length (chartDataRef c))
                    @ '' data points saved for '' @ selectedActivity c,
                  variant = None\<rparr> c)"

text \<open>
  \<^verbatim>\<open>addNewActivity\<close>. The empty string is the only falsy string. The last toast quotes
  \<^verbatim>\<open>newActivity\<close> as the handler's render saw it, before \<^verbatim>\<open>setNewActivity('')\<close>.
\<close>

definition addNewActivity :: "DataCollectionForm \<Rightarrow> DataCollectionForm" where
  "addNewActivity c =
     (if trim (newActivity c) = []
      then toast \<lparr>title = ''Invalid Activity'',
                  description = ''Please enter a valid activity name'',
                  variant = Some ''destructive''\<rparr> c
      else if toLowerCase (trim (newActivity c)) \<in> set (activities c)
      then toast \<lparr>title = ''Activity Exists'',
                  description = ''This activity already exists'',
                  variant = Some ''destructive''\<rparr> c
      else toast \<lparr>title = ''Activity Added'',
                  description = CHR 0x27 # newActivity c
                    @ CHR 0x27 # '' has been added to available activities'',
                  variant = None\<rparr>
             (c\<lparr>activities := activities c @ [toLowerCase (trim (newActivity c))],
                selectedActivity := toLowerCase (trim (newActivity c)),
                newActivity := [],
                showNewActivityInput := False\<rparr>))"

text \<open>
  Adding an activity by name: the input's \<^verbatim>\<open>onChange\<close> stores the typed name, the Add
  button calls \<^verbatim>\<open>addNewActivity\<close>.
\<close>

definition addActivity :: "string \<Rightarrow> DataCollectionForm \<Rightarrow> DataCollectionForm" where
  "addActivity name c = addNewActivity (c\<lparr>newActivity := name\<rparr>)"

section \<open>The telemetry client: \<^verbatim>\<open>MQTTService\<close>\<close>

text \<open>
  The client of \<^verbatim>\<open>connect\<close> is always the same object literal, whose methods close over
  the service; \<^verbatim>\<open>on('connect', f)\<close> starts a 500 ms timer, \<^verbatim>\<open>subscribe\<close> calls back
  with no error, \<^verbatim>\<open>end\<close> clears \<^verbatim>\<open>isConnected\<close> and calls back.
\<close>

datatype MqttClient = MockClient

datatype js_error = Error string

text \<open>
  The four fields of the class, and what the JavaScript runtime holds for it: the pending
  500 ms timers of \<^verbatim>\<open>connect\<close> (each named by the promise whose \<^verbatim>\<open>resolve\<close> its
  callback holds), the live \<^verbatim>\<open>setInterval\<close> handles of the generator, the promises
  resolved so far, and the next unused handle. An observer is a function on the
  observer's own state \<open>'o\<close>. Console output is not modelled.
\<close>

record 'o MQTTService =
  client :: "MqttClient option"
  onMessageCallback :: "(SensorData \<Rightarrow> 'o \<Rightarrow> 'o) option"
  config :: "MQTTConfig option"
  isConnected :: bool
  timeouts :: "nat list"
  intervals :: "nat list"
  resolved :: "nat list"
  nextHandle :: nat

definition newMQTTService :: "'o MQTTService" where
  "newMQTTService =
     \<lparr>client = None, onMessageCallback = None, config = None, isConnected = False,
      timeouts = [], intervals = [], resolved = [], nextHandle = 0\<rparr>"

definition configure :: "MQTTConfig \<Rightarrow> 'o MQTTService \<Rightarrow> 'o MQTTService" where
  "configure cfg s = s\<lparr>config := Some cfg\<rparr>"

text \<open>
  \<^verbatim>\<open>connect\<close> returns a promise: one rejected at once (\<open>Inl\<close>), or a pending one
  (\<open>Inr\<close>, its name), which the timer's callback resolves.
\<close>

definition connect ::
  "(SensorData \<Rightarrow> 'o \<Rightarrow> 'o) \<Rightarrow> 'o MQTTService \<Rightarrow> (js_error + nat) \<times> 'o MQTTService" where
  "connect cb s =
     (if config s = None then (Inl (Error ''MQTT not configured''), s)
      else (Inr (nextHandle s),
            s\<lparr>client := Some MockClient,
              onMessageCallback := Some cb,
              timeouts := timeouts s @ [nextHandle s],
              nextHandle := Suc (nextHandle s)\<rparr>))"

definition startMockDataGeneration :: "'o MQTTService \<Rightarrow> 'o MQTTService" where
  "startMockDataGeneration s =
     (if onMessageCallback s = None then s
      else s\<lparr>intervals := intervals s @ [nextHandle s],
             nextHandle := Suc (nextHandle s)\<rparr>)"

text \<open>The \<^verbatim>\<open>'connect'\<close> handler of the promise \<open>p\<close>.\<close>

definition onConnect :: "nat \<Rightarrow> 'o MQTTService \<Rightarrow> 'o MQTTService" where
  "onConnect p s =
     (if config s \<noteq> None \<and> client s \<noteq> None
      then (let s' = startMockDataGeneration s in s'\<lparr>resolved := resolved s' @ [p]\<rparr>)
      else s)"

text \<open>The timer callback: \<^verbatim>\<open>callback(); this.isConnected = true\<close>. It runs once.\<close>

definition timeoutFires :: "nat \<Rightarrow> 'o MQTTService \<Rightarrow> 'o MQTTService" where
  "timeoutFires p s =
     (if p \<in> set (timeouts s)
      then (onConnect p (s\<lparr>timeouts := removeAll p (timeouts s)\<rparr>))\<lparr>isConnected := True\<rparr>
      else s)"

text \<open>
  The generator. \<open>rnd k\<close> is what the \<open>k\<close>-th call of \<^verbatim>\<open>Math.random()\<close> in one callback
  returns, \<open>now\<close> what \<^verbatim>\<open>Date.now()\<close> returns.
\<close>

definition randomValue :: "real \<Rightarrow> real" where
  "randomValue r = r * 20 - 10"

definition mockData :: "(nat \<Rightarrow> real) \<Rightarrow> int \<Rightarrow> SensorData" where
  "mockData rnd now =
     \<lparr>acceleration =
        \<lparr>xyz_x = randomValue (rnd 0), xyz_y = randomValue (rnd 1), xyz_z = randomValue (rnd 2)\<rparr>,
      gyroscope =
        \<lparr>xyz_x = randomValue (rnd 3), xyz_y = randomValue (rnd 4), xyz_z = randomValue (rnd 5)\<rparr>,
      timestamp = now\<rparr>"

text \<open>
  The same expression with the rounding of floating-point arithmetic written out: \<open>fl\<close>
  rounds the exact result of each operation.
\<close>

definition randomValue_rounded :: "(real \<Rightarrow> real) \<Rightarrow> real \<Rightarrow> real" where
  "randomValue_rounded fl r = fl (fl (r * 20) - 10)"

text \<open>
  One run of the interval callback of handle \<open>h\<close>, on the service and the observer's
  state.
\<close>

definition intervalTick ::
  "nat \<Rightarrow> (nat \<Rightarrow> real) \<Rightarrow> int \<Rightarrow> 'o MQTTService \<times> 'o \<Rightarrow> 'o MQTTService \<times> 'o" where
  "intervalTick h rnd now so =
     (let s = fst so; ob = snd so
      in if h \<notin> set (intervals s) then (s, ob)
         else if \<not> isConnected s \<or> onMessageCallback s = None
         then (s\<lparr>intervals := removeAll h (intervals s)\<rparr>, ob)
         else (case onMessageCallback s of
                 Some cb \<Rightarrow> (s, cb (mockData rnd now) ob)
               | None \<Rightarrow> (s, ob)))"

definition disconnect :: "'o MQTTService \<Rightarrow> 'o MQTTService" where
  "disconnect s =
     (if client s \<noteq> None \<and> isConnected s
      then s\<lparr>isConnected := False, onMessageCallback := None\<rparr>
      else s)"

definition isConnectedToBroker :: "'o MQTTService \<Rightarrow> bool" where
  "isConnectedToBroker s = isConnected s"

text \<open>An observer that keeps every sample it is called with.\<close>

definition observe :: "SensorData \<Rightarrow> SensorData list \<Rightarrow> SensorData list" where
  "observe d received = received @ [d]"

text \<open>
  The timer callbacks that run on a service while nothing calls it: a connection timer
  fires, or an interval callback runs.
\<close>

datatype timer = Fire nat | Tick nat "nat \<Rightarrow> real" int

fun timerStep :: "timer \<Rightarrow> 'o MQTTService \<times> 'o \<Rightarrow> 'o MQTTService \<times> 'o" where
  "timerStep (Fire p) so = (timeoutFires p (fst so), snd so)"
| "timerStep (Tick h rnd now) so = intervalTick h rnd now so"

fun timers :: "timer list \<Rightarrow> 'o MQTTService \<times> 'o \<Rightarrow> 'o MQTTService \<times> 'o" where
  "timers [] so = so"
| "timers (t # ts) so = timers ts (timerStep t so)"

section \<open>The module \<^verbatim>\<open>services/mqttService.ts\<close>\<close>

text \<open>
  The module's \<^verbatim>\<open>client\<close> variable, and the clients whose \<^verbatim>\<open>end()\<close> has been called.
\<close>

record 'c mqttModule =
  moduleClient :: "'c option"
  ended :: "'c list"

definition disconnectMqtt :: "'c mqttModule \<Rightarrow> 'c mqttModule" where
  "disconnectMqtt m =
     (case moduleClient m of
        None \<Rightarrow> m
      | Some c \<Rightarrow> m\<lparr>ended := ended m @ [c], moduleClient := None\<rparr>)"

section \<open>The page: the form and the service it imports\<close>

text \<open>
  \<open>awaiting\<close> holds the calls of \<^verbatim>\<open>startCollection\<close> suspended at their \<^verbatim>\<open>await\<close>:
  the promise, and the \<^verbatim>\<open>selectedActivity\<close> their render saw.
\<close>

record page =
  form :: DataCollectionForm
  mqttService :: "DataCollectionForm MQTTService"
  awaiting :: "(nat \<times> string) list"

definition mountConfig :: "int \<Rightarrow> MQTTConfig" where
  "mountConfig now =
     \<lparr>brokerUrl = ''mqtt://broker.example.com'', username = None, password = None,
      clientId = ''motionsense_'' @ integerToString now, topic = ''esp32/sensor_data''\<rparr>"

text \<open>The page after the first render and its effect, which configures the service.\<close>

definition mounted :: "int \<Rightarrow> page" where
  "mounted now =
     \<lparr>form = initialForm, mqttService = configure (mountConfig now) newMQTTService,
      awaiting = []\<rparr>"

definition startCollection :: "page \<Rightarrow> page" where
  "startCollection a =
     (if selectedActivity (form a) = []
      then a\<lparr>form := toast \<lparr>title = ''Error'',
                               description = ''Please select an activity first'',
                               variant = Some ''destructive''\<rparr> (form a)\<rparr>
      else (case connect handleSensorData (mqttService a) of
              (Inl e, s) \<Rightarrow> a\<lparr>mqttService := s, form := startCollection_rejected (form a)\<rparr>
            | (Inr p, s) \<Rightarrow>
                a\<lparr>mqttService := s,
                  awaiting := awaiting a @ [(p, selectedActivity (form a))]\<rparr>))"

definition stopCollection :: "page \<Rightarrow> page" where
  "stopCollection a =
     a\<lparr>mqttService := disconnect (mqttService a),
       form := stopCollection_resolved (form a)\<rparr>"

text \<open>
  The timer callback on the page: the service's part, then the continuation of the
  \<^verbatim>\<open>startCollection\<close> that awaits the promise, if the callback resolved it.
\<close>

definition pageTimeoutFires :: "nat \<Rightarrow> page \<Rightarrow> page" where
  "pageTimeoutFires p a =
     (let s = timeoutFires p (mqttService a)
      in if p \<in> set (resolved s) \<and> p \<notin> set (resolved (mqttService a))
         then (case map_of (awaiting a) p of
                 Some sel \<Rightarrow>
                   a\<lparr>mqttService := s,
                     form := startCollection_resolved sel (form a),
                     awaiting := filter (\<lambda>w. fst w \<noteq> p) (awaiting a)\<rparr>
               | None \<Rightarrow> a\<lparr>mqttService := s\<rparr>)
         else a\<lparr>mqttService := s\<rparr>)"

definition pageIntervalTick :: "nat \<Rightarrow> (nat \<Rightarrow> real) \<Rightarrow> int \<Rightarrow> page \<Rightarrow> page" where
  "pageIntervalTick h rnd now a =
     (let so = intervalTick h rnd now (mqttService a, form a)
      in a\<lparr>mqttService := fst so, form := snd so\<rparr>)"

text \<open>
  Everything that can happen on the page: the user's actions, the cleanup of the effect,
  and the two kinds of timer callback.
\<close>

datatype event =
    SetSelectedActivity string
  | SetNewActivity string
  | SetShowNewActivityInput bool
  | StartCollection
  | StopCollection
  | SaveData
  | AddNewActivity
  | Cleanup
  | TimeoutFires nat
  | IntervalTick nat "nat \<Rightarrow> real" int

fun step :: "event \<Rightarrow> page \<Rightarrow> page" where
  "step (SetSelectedActivity v) a = a\<lparr>form := (form a)\<lparr>selectedActivity := v\<rparr>\<rparr>"
| "step (SetNewActivity v) a = a\<lparr>form := (form a)\<lparr>newActivity := v\<rparr>\<rparr>"
| "step (SetShowNewActivityInput b) a = a\<lparr>form := (form a)\<lparr>showNewActivityInput := b\<rparr>\<rparr>"
| "step StartCollection a = startCollection a"
| "step StopCollection a = stopCollection a"
| "step SaveData a = a\<lparr>form := saveData (form a)\<rparr>"
| "step AddNewActivity a = a\<lparr>form := addNewActivity (form a)\<rparr>"
| "step Cleanup a = a\<lparr>mqttService := disconnect (mqttService a)\<rparr>"
| "step (TimeoutFires p) a = pageTimeoutFires p a"
| "step (IntervalTick h rnd now) a = pageIntervalTick h rnd now a"

fun run :: "event list \<Rightarrow> page \<Rightarrow> page" where
  "run [] a = a"
| "run (e # es) a = run es (step e a)"

text \<open>
  The interval \<open>h\<close> is live and its callback delivers to the form; the ticks of \<open>h\<close> with
  given draws and times, and the samples the generator makes of them.
\<close>

definition ticking :: "page \<Rightarrow> nat \<Rightarrow> bool" where
  "ticking a h =
     (h \<in> set (intervals (mqttService a)) \<and> isConnected (mqttService a)
      \<and> onMessageCallback (mqttService a) = Some handleSensorData)"

fun ticks :: "nat \<Rightarrow> ((nat \<Rightarrow> real) \<times> int) list \<Rightarrow> event list" where
  "ticks h [] = []"
| "ticks h (t # ts) = IntervalTick h (fst t) (snd t) # ticks h ts"

fun generated :: "((nat \<Rightarrow> real) \<times> int) list \<Rightarrow> SensorData list" where
  "generated [] = []"
| "generated (t # ts) = mockData (fst t) (snd t) # generated ts"

section \<open>Invariants\<close>

text \<open>
  Activity names in normal form, and what holds of the page in every state it reaches:
  the names are in normal form and the observer the service holds, if any, is the
  form's handler.
\<close>

definition normalized :: "string list \<Rightarrow> bool" where
  "normalized xs = (\<forall>x \<in> set xs. trim x = x \<and> toLowerCase x = x)"

definition page_inv :: "page \<Rightarrow> bool" where
  "page_inv a =
     (normalized (activities (form a))
      \<and> (onMessageCallback (mqttService a) = None
         \<or> onMessageCallback (mqttService a) = Some handleSensorData))"

section \<open>Example inputs\<close>

text \<open>
  Draws of \<^verbatim>\<open>Math.random()\<close> that are all one half, and the sample the generator makes
  from them at time \<open>k\<close>.
\<close>

definition halves :: "nat \<Rightarrow> real" where
  "halves k = 1 / 2"

definition sampleAt :: "nat \<Rightarrow> SensorData" where
  "sampleAt k = mockData halves (int k)"

text \<open>
  A service whose observer keeps the samples: configured, then with a \<^verbatim>\<open>connect\<close> in
  flight, then connected. A module with no client.
\<close>

definition configuredService :: "SensorData list MQTTService" where
  "configuredService = configure (mountConfig 0) newMQTTService"

definition connectingService :: "SensorData list MQTTService" where
  "connectingService = snd (connect observe configuredService)"

definition connectedService :: "SensorData list MQTTService" where
  "connectedService = timeoutFires 0 connectingService"

definition emptyModule :: "nat mqttModule" where
  "emptyModule = \<lparr>moduleClient = None, ended = []\<rparr>"


definition walkingForm :: DataCollectionForm where
  "walkingForm = initialForm\<lparr>selectedActivity := ''walking''\<rparr>"

section \<open>The sample window\<close>

lemma chartDataRef_handleSensorData:
  "chartDataRef (handleSensorData d c) =
     drop (length (chartDataRef c @ [d]) - 20) (chartDataRef c @ [d])"
  by (simp add: handleSensorData_def Let_def)

lemma length_chartDataRef_handleSensorData:
  "length (chartDataRef c) \<le> 20 \<Longrightarrow> length (chartDataRef (handleSensorData d c)) \<le> 20"
  by (simp add: chartDataRef_handleSensorData)

lemma drop_window_append:
  fixes w :: "'a list"
  assumes "length w \<le> 20"
  shows "drop (length (drop (length (w @ [d]) - 20) (w @ [d]) @ ds) - 20)
           (drop (length (w @ [d]) - 20) (w @ [d]) @ ds)
         = drop (length (w @ d # ds) - 20) (w @ d # ds)"
proof (cases "length w = 20")
  case True
  then obtain a w' where w: "w = a # w'" by (cases w) auto
  with True have "length w' = 19" by simp
  then show ?thesis by (simp add: w)
next
  case False
  with assms have "length w < 20" by simp
  then show ?thesis by simp
qed

lemma chartDataRef_deliver:
  "length (chartDataRef c) \<le> 20 \<Longrightarrow>
   chartDataRef (deliver ds c) =
     drop (length (chartDataRef c @ ds) - 20) (chartDataRef c @ ds)"
proof (induction ds arbitrary: c)
  case Nil
  then show ?case by simp
next
  case (Cons d ds)
  have "chartDataRef (deliver (d # ds) c) =
      drop (length (chartDataRef (handleSensorData d c) @ ds) - 20)
        (chartDataRef (handleSensorData d c) @ ds)"
    using Cons.IH [OF length_chartDataRef_handleSensorData [OF Cons.prems]] by simp
  also have "\<dots> = drop (length (chartDataRef c @ d # ds) - 20) (chartDataRef c @ d # ds)"
    unfolding chartDataRef_handleSensorData by (rule drop_window_append [OF Cons.prems])
  finally show ?case .
qed

text \<open>
  C1. Starting from the empty window, after the handler has received the samples
  \<open>ds\<close> (any number \<open>N\<close> of them, so also after each single insertion) the window
  holds exactly \<open>min N 20\<close> samples, and they are the last \<open>min N 20\<close> of \<open>ds\<close> in
  arrival order.
\<close>

theorem window_most_recent_20:
  assumes "chartDataRef c = []"
  shows "length (chartDataRef (deliver ds c)) = min (length ds) 20
       \<and> chartDataRef (deliver ds c) = drop (length ds - 20) ds
       \<and> (\<exists>evicted. ds = evicted @ chartDataRef (deliver ds c))"
proof -
  have w: "chartDataRef (deliver ds c) = drop (length ds - 20) ds"
    using assms by (simp add: chartDataRef_deliver)
  have "ds = take (length ds - 20) ds @ chartDataRef (deliver ds c)"
    by (simp add: w)
  then have "\<exists>evicted. ds = evicted @ chartDataRef (deliver ds c)" ..
  moreover have "length (chartDataRef (deliver ds c)) = min (length ds) 20"
    by (simp add: w)
  ultimately show ?thesis using w by simp
qed

theorem window_most_recent_20_witness:
  "chartDataRef initialForm = []
   \<and> chartDataRef (deliver (map sampleAt [0..<25]) initialForm) = map sampleAt [5..<25]"
  using window_most_recent_20 [of initialForm "map sampleAt [0..<25]"]
  by (simp add: initialForm_def drop_map)

section \<open>A recording session on the page\<close>

text \<open>
  Selecting an activity, starting, the connection timer, any number of ticks, stopping
  and saving leave the form as the continuation of \<^verbatim>\<open>startCollection\<close>, the handler on
  each generated sample, \<^verbatim>\<open>stopCollection\<close> and \<^verbatim>\<open>saveData\<close> do, in this order.
\<close>

lemma pageIntervalTick_ticking:
  "ticking a h \<Longrightarrow>
   pageIntervalTick h rnd now a = a\<lparr>form := handleSensorData (mockData rnd now) (form a)\<rparr>"
  by (simp add: ticking_def pageIntervalTick_def intervalTick_def Let_def)

lemma run_ticks:
  "ticking a h \<Longrightarrow> run (ticks h ts) a = a\<lparr>form := deliver (generated ts) (form a)\<rparr>"
proof (induction ts arbitrary: a)
  case Nil
  show ?case by simp
next
  case (Cons t ts)
  let ?a = "a\<lparr>form := handleSensorData (mockData (fst t) (snd t)) (form a)\<rparr>"
  have "ticking ?a h"
    using Cons.prems by (simp add: ticking_def)
  then have "run (ticks h ts) ?a = ?a\<lparr>form := deliver (generated ts) (form ?a)\<rparr>"
    by (rule Cons.IH)
  then show ?case
    by (simp add: pageIntervalTick_ticking [OF Cons.prems])
qed

lemma started:
  "run [SetSelectedActivity ''walking'', StartCollection, TimeoutFires 0] (mounted now) =
   \<lparr>form = startCollection_resolved ''walking'' walkingForm,
    mqttService =
      \<lparr>client = Some MockClient, onMessageCallback = Some handleSensorData,
       config = Some (mountConfig now), isConnected = True, timeouts = [],
       intervals = [1], resolved = [0], nextHandle = 2\<rparr>,
    awaiting = []\<rparr>"
  by (simp add: mounted_def walkingForm_def initialForm_def startCollection_def connect_def
      configure_def newMQTTService_def pageTimeoutFires_def timeoutFires_def onConnect_def
      startMockDataGeneration_def Let_def)

lemma run_append: "run (es @ fs) a = run fs (run es a)"
  by (induction es arbitrary: a) simp_all

lemma session_on_page:
  "form (run ([SetSelectedActivity ''walking'', StartCollection, TimeoutFires 0]
          @ ticks 1 ts @ [StopCollection, SaveData]) (mounted now))
   = saveData (stopCollection_resolved
       (deliver (generated ts) (startCollection_resolved ''walking'' walkingForm)))"
proof -
  let ?p = "run [SetSelectedActivity ''walking'', StartCollection, TimeoutFires 0] (mounted now)"
  have "ticking ?p 1"
    unfolding started by (simp add: ticking_def)
  then have "run (ticks 1 ts) ?p = ?p\<lparr>form := deliver (generated ts) (form ?p)\<rparr>"
    by (rule run_ticks)
  then have "form (run [StopCollection, SaveData] (run (ticks 1 ts) ?p))
      = saveData (stopCollection_resolved (deliver (generated ts) (form ?p)))"
    by (simp add: stopCollection_def)
  then show ?thesis
    unfolding run_append started by simp
qed

lemma five_samples_scenario:
  "last (toasts (form (run ([SetSelectedActivity ''walking'', StartCollection, TimeoutFires 0]
          @ ticks 1 [(halves, 1500), (halves, 2500), (halves, 3500), (halves, 4500), (halves, 5500)]
          @ [StopCollection, SaveData]) (mounted 0))))
   = \<lparr>title = ''Data Saved'', description = ''5 data points saved for walking'',
      variant = None\<rparr>"
  unfolding session_on_page
  by (simp add: saveData_def stopCollection_resolved_def startCollection_resolved_def
      handleSensorData_def walkingForm_def initialForm_def toast_def Let_def
      numberToString.simps char_of_eq_iff)

section \<open>Saving\<close>

lemma chartDataRef_toast [simp]: "chartDataRef (toast t c) = chartDataRef c"
  by (simp add: toast_def)

lemma saveData_nonempty:
  "chartDataRef c \<noteq> [] \<Longrightarrow>
   saveData c =
     toast \<lparr>title = ''Data Saved'',
            description = numberToString (length (chartDataRef c))
              @ '' data points saved for '' @ selectedActivity c,
            variant = None\<rparr> c"
  by (simp add: saveData_def)

lemma selectedActivity_handleSensorData [simp]:
  "selectedActivity (handleSensorData d c) = selectedActivity c"
  by (simp add: handleSensorData_def Let_def)

lemma selectedActivity_deliver [simp]: "selectedActivity (deliver ds c) = selectedActivity c"
  by (induction ds arbitrary: c) simp_all

text \<open>
  C2, as the code has it. The form keeps no log besides the window
  \<^verbatim>\<open>chartDataRef\<close>. In a session (the continuation of \<^verbatim>\<open>startCollection\<close>, then the
  samples \<open>ds\<close>, \<open>K \<ge> 1\<close> of them, then \<^verbatim>\<open>stopCollection\<close>) \<^verbatim>\<open>saveData\<close> succeeds, and
  what it reads and reports is the window: the last \<open>min K 20\<close> samples, with the
  selected activity.
\<close>

theorem save_reports_window:
  assumes "ds \<noteq> []"
  shows "chartDataRef (stopCollection_resolved (deliver ds (startCollection_resolved sel c)))
           = drop (length ds - 20) ds
       \<and> saveData (stopCollection_resolved (deliver ds (startCollection_resolved sel c))) =
           toast \<lparr>title = ''Data Saved'',
                  description = numberToString (min (length ds) 20)
                    @ '' data points saved for '' @ selectedActivity c,
                  variant = None\<rparr>
             (stopCollection_resolved (deliver ds (startCollection_resolved sel c)))"
proof -
  let ?c = "stopCollection_resolved (deliver ds (startCollection_resolved sel c))"
  have "chartDataRef (startCollection_resolved sel c) = []"
    by (simp add: startCollection_resolved_def)
  then have w: "chartDataRef ?c = drop (length ds - 20) ds"
    by (simp add: stopCollection_resolved_def chartDataRef_deliver)
  have l: "length (chartDataRef ?c) = min (length ds) 20"
    by (simp add: w)
  have "0 < length ds"
    using assms by simp
  then have "length (chartDataRef ?c) \<noteq> 0"
    unfolding l by arith
  then have n: "chartDataRef ?c \<noteq> []"
    by simp
  have s: "selectedActivity ?c = selectedActivity c"
    by (simp add: stopCollection_resolved_def toast_def startCollection_resolved_def)
  have "saveData ?c =
      toast \<lparr>title = ''Data Saved'',
             description = numberToString (min (length ds) 20)
               @ '' data points saved for '' @ selectedActivity c,
             variant = None\<rparr> ?c"
    using saveData_nonempty [OF n] unfolding l s .
  with w show ?thesis by (rule conjI)
qed

theorem save_reports_window_witness:
  "[sampleAt 7] \<noteq> []
   \<and> last (toasts (saveData (stopCollection_resolved
        (deliver [sampleAt 7] (startCollection_resolved ''walking'' walkingForm)))))
     = \<lparr>title = ''Data Saved'', description = ''1 data points saved for walking'',
        variant = None\<rparr>"
  using save_reports_window [of "[sampleAt 7]" "''walking''" walkingForm]
  by (simp add: toast_def walkingForm_def initialForm_def numberToString.simps char_of_eq_iff)

text \<open>
  The claim C2 as stated fails at \<open>K = 21\<close>: after 21 samples the first one is gone, and
  \<^verbatim>\<open>saveData\<close> reports 20 data points.
\<close>

theorem save_21_samples_counterexample:
  "length (map sampleAt [0..<21]) = 21
   \<and> chartDataRef (stopCollection_resolved
        (deliver (map sampleAt [0..<21]) (startCollection_resolved ''walking'' walkingForm)))
      = map sampleAt [1..<21]
   \<and> last (toasts (saveData (stopCollection_resolved
        (deliver (map sampleAt [0..<21]) (startCollection_resolved ''walking'' walkingForm)))))
      = \<lparr>title = ''Data Saved'', description = ''20 data points saved for walking'',
         variant = None\<rparr>"
  by (simp add: chartDataRef_deliver startCollection_resolved_def saveData_def
      stopCollection_resolved_def walkingForm_def initialForm_def toast_def drop_map
      numberToString.simps char_of_eq_iff)

text \<open>
  C7. \<^verbatim>\<open>saveData\<close> on an empty \<^verbatim>\<open>chartDataRef\<close> shows the destructive toast "No Data"
  and nothing else (no "Data Saved"), and \<^verbatim>\<open>saveData\<close> never changes what has been
  collected, so a failed save leaves it as it was.
\<close>

theorem save_empty_fails:
  "(chartDataRef c = [] \<longrightarrow>
      saveData c = toast \<lparr>title = ''No Data'',
                          description = ''No data has been collected to save'',
                          variant = Some ''destructive''\<rparr> c)
   \<and> chartDataRef (saveData c) = chartDataRef c"
  by (simp add: saveData_def)

theorem save_empty_fails_witness:
  "chartDataRef initialForm = []
   \<and> toasts (saveData initialForm) =
       [\<lparr>title = ''No Data'', description = ''No data has been collected to save'',
         variant = Some ''destructive''\<rparr>]
   \<and> chartDataRef (saveData initialForm) = []"
  using save_empty_fails [of initialForm]
  by (simp add: initialForm_def toast_def)

section \<open>Activities\<close>

lemma of_char_lowerChar:
  "(of_char (lowerChar ch) :: nat) =
     (if (65 \<le> (of_char ch :: nat) \<and> (of_char ch :: nat) \<le> 90)
         \<or> (192 \<le> (of_char ch :: nat) \<and> (of_char ch :: nat) \<le> 222 \<and> (of_char ch :: nat) \<noteq> 215)
      then of_char ch + 32 else of_char ch)"
  by (auto simp add: lowerChar_def Let_def)

lemma lowerChar_idem: "lowerChar (lowerChar ch) = lowerChar ch"
  by (rule of_char_eqI [where ?'a = nat]) (simp add: of_char_lowerChar)

lemma isWhiteSpace_lowerChar: "isWhiteSpace (lowerChar ch) = isWhiteSpace ch"
  unfolding isWhiteSpace_def of_char_lowerChar by auto

lemma toLowerCase_idem: "toLowerCase (toLowerCase s) = toLowerCase s"
  by (simp add: toLowerCase_def lowerChar_idem)

lemma dropWhile_isWhiteSpace_toLowerCase:
  "dropWhile isWhiteSpace (toLowerCase s) = toLowerCase (dropWhile isWhiteSpace s)"
  by (induction s) (simp_all add: toLowerCase_def isWhiteSpace_lowerChar)

lemma rev_toLowerCase: "rev (toLowerCase s) = toLowerCase (rev s)"
  by (simp add: toLowerCase_def rev_map)

lemma trim_toLowerCase: "trim (toLowerCase s) = toLowerCase (trim s)"
  by (simp add: trim_def dropWhile_isWhiteSpace_toLowerCase rev_toLowerCase)

lemma dropWhile_trim: "dropWhile isWhiteSpace (trim s) = trim s"
proof (cases "trim s = []")
  case True
  then show ?thesis by simp
next
  case False
  let ?ys = "dropWhile isWhiteSpace s"
  have split: "?ys = trim s @ rev (takeWhile isWhiteSpace (rev ?ys))"
  proof -
    have "trim s @ rev (takeWhile isWhiteSpace (rev ?ys)) =
        rev (takeWhile isWhiteSpace (rev ?ys) @ dropWhile isWhiteSpace (rev ?ys))"
      by (simp only: trim_def rev_append)
    also have "\<dots> = rev (rev ?ys)"
      by (simp only: takeWhile_dropWhile_id)
    finally show ?thesis by simp
  qed
  with False have "hd (trim s) = hd ?ys"
    by (metis hd_append2)
  moreover have "?ys \<noteq> []"
  proof
    assume "?ys = []"
    with split have "trim s @ rev (takeWhile isWhiteSpace (rev ?ys)) = []"
      by (simp only:)
    with False show False by simp
  qed
  then have "\<not> isWhiteSpace (hd ?ys)"
    by (rule hd_dropWhile)
  ultimately show ?thesis
    using False by (simp add: dropWhile_eq_self_iff)
qed

lemma trim_idem: "trim (trim s) = trim s"
proof -
  have "trim (trim s) = rev (dropWhile isWhiteSpace (rev (trim s)))"
    by (simp add: trim_def [of "trim s"] dropWhile_trim)
  also have "rev (trim s) = dropWhile isWhiteSpace (rev (dropWhile isWhiteSpace s))"
    by (simp add: trim_def)
  also have "rev (dropWhile isWhiteSpace \<dots>) = trim s"
    by (simp add: trim_def)
  finally show ?thesis .
qed

lemma normal_form:
  "trim (toLowerCase (trim s)) = toLowerCase (trim s)
   \<and> toLowerCase (toLowerCase (trim s)) = toLowerCase (trim s)"
  by (simp add: trim_toLowerCase trim_idem toLowerCase_idem)


text \<open>
  C8, as the code has it. A name whose trimmed form is empty is refused as invalid and
  nothing is added. For every other name, \<^verbatim>\<open>addNewActivity\<close> shows "Activity Exists"
  exactly when the trimmed, lower-cased name is in \<^verbatim>\<open>activities\<close>, and then changes
  nothing else; otherwise it appends that form and selects it.
\<close>

theorem addActivity_cases:
  "(trim name = [] \<longrightarrow>
      addActivity name c =
        toast \<lparr>title = ''Invalid Activity'',
               description = ''Please enter a valid activity name'',
               variant = Some ''destructive''\<rparr> (c\<lparr>newActivity := name\<rparr>))
   \<and> (trim name \<noteq> [] \<longrightarrow>
        (last (toasts (addActivity name c)) =
           \<lparr>title = ''Activity Exists'', description = ''This activity already exists'',
            variant = Some ''destructive''\<rparr>)
          = (toLowerCase (trim name) \<in> set (activities c))
      \<and> (toLowerCase (trim name) \<in> set (activities c) \<longrightarrow>
            addActivity name c =
              toast \<lparr>title = ''Activity Exists'',
                     description = ''This activity already exists'',
                     variant = Some ''destructive''\<rparr> (c\<lparr>newActivity := name\<rparr>))
      \<and> (toLowerCase (trim name) \<notin> set (activities c) \<longrightarrow>
            activities (addActivity name c) = activities c @ [toLowerCase (trim name)]
          \<and> selectedActivity (addActivity name c) = toLowerCase (trim name)))"
  by (simp add: addActivity_def addNewActivity_def toast_def)

theorem addActivity_cases_witness:
  "trim ''Walking'' \<noteq> []
   \<and> toLowerCase (trim ''Walking'') \<in> set (activities (addActivity ''walking'' initialForm))
   \<and> last (toasts (addActivity ''Walking'' (addActivity ''walking'' initialForm))) =
       \<lparr>title = ''Activity Exists'', description = ''This activity already exists'',
        variant = Some ''destructive''\<rparr>
   \<and> trim '' Running '' \<noteq> []
   \<and> toLowerCase (trim '' Running '') \<notin> set (activities initialForm)
   \<and> activities (addActivity '' Running '' initialForm) =
       [''standing'', ''sitting'', ''walking'', ''running'']
   \<and> selectedActivity (addActivity '' Running '' initialForm) = ''running''"
proof -
  have t: "trim ''Walking'' = ''Walking''" "trim '' Running '' = ''Running''"
    by (simp_all add: trim_def isWhiteSpace_def)
  have l: "toLowerCase ''Walking'' = ''walking''" "toLowerCase ''Running'' = ''running''"
    by (simp_all add: toLowerCase_def lowerChar_def char_of_eq_iff)
  have a: "activities (addActivity ''walking'' initialForm) = [''standing'', ''sitting'', ''walking'']"
    by (simp add: addActivity_def addNewActivity_def initialForm_def DEFAULT_ACTIVITIES_def
        toast_def trim_def isWhiteSpace_def toLowerCase_def lowerChar_def)
  have i: "activities initialForm = [''standing'', ''sitting'', ''walking'']"
    by (simp add: initialForm_def DEFAULT_ACTIVITIES_def)
  show ?thesis
    using addActivity_cases [of "''Walking''" "addActivity ''walking'' initialForm"]
      addActivity_cases [of "'' Running ''" initialForm]
    by (simp add: t l a i toast_def)
qed

text \<open>
  The claim C8 as stated fails for a blank name: its trimmed form is not a known
  activity, yet it is neither added nor selected.
\<close>

theorem addActivity_blank_counterexample:
  "toLowerCase (trim ''  '') \<notin> set (activities initialForm)
   \<and> activities (addActivity ''  '' initialForm) = activities initialForm
   \<and> selectedActivity (addActivity ''  '' initialForm) = selectedActivity initialForm
   \<and> last (toasts (addActivity ''  '' initialForm)) =
       \<lparr>title = ''Invalid Activity'', description = ''Please enter a valid activity name'',
        variant = Some ''destructive''\<rparr>"
  by (simp add: addActivity_def addNewActivity_def initialForm_def DEFAULT_ACTIVITIES_def
      toast_def trim_def isWhiteSpace_def toLowerCase_def)


section \<open>The activity names stay in normal form\<close>

lemma activities_toast [simp]: "activities (toast t c) = activities c"
  by (simp add: toast_def)

lemma activities_handleSensorData [simp]: "activities (handleSensorData d c) = activities c"
  by (simp add: handleSensorData_def Let_def)

lemma activities_saveData [simp]: "activities (saveData c) = activities c"
  by (simp add: saveData_def)

lemma activities_startCollection_resolved [simp]:
  "activities (startCollection_resolved sel c) = activities c"
  by (simp add: startCollection_resolved_def)

lemma activities_startCollection_rejected [simp]:
  "activities (startCollection_rejected c) = activities c"
  by (simp add: startCollection_rejected_def)

lemma activities_stopCollection_resolved [simp]:
  "activities (stopCollection_resolved c) = activities c"
  by (simp add: stopCollection_resolved_def)

lemma normalized_DEFAULT_ACTIVITIES: "normalized DEFAULT_ACTIVITIES"
  by (simp add: normalized_def DEFAULT_ACTIVITIES_def trim_def isWhiteSpace_def
      toLowerCase_def lowerChar_def)

lemma normalized_addNewActivity:
  "normalized (activities c) \<Longrightarrow> normalized (activities (addNewActivity c))"
  by (simp add: addNewActivity_def normalized_def trim_toLowerCase trim_idem toLowerCase_idem)

lemma onMessageCallback_timeoutFires [simp]:
  "onMessageCallback (timeoutFires p s) = onMessageCallback s"
  by (simp add: timeoutFires_def onConnect_def startMockDataGeneration_def Let_def)

lemma onMessageCallback_intervalTick [simp]:
  "onMessageCallback (fst (intervalTick h rnd now (s, ob))) = onMessageCallback s"
  by (simp add: intervalTick_def Let_def split: option.split)

lemma onMessageCallback_disconnect:
  "onMessageCallback (disconnect s) = None \<or> onMessageCallback (disconnect s) = onMessageCallback s"
  by (simp add: disconnect_def)

lemma activities_intervalTick:
  "onMessageCallback s = None \<or> onMessageCallback s = Some handleSensorData \<Longrightarrow>
   activities (snd (intervalTick h rnd now (s, c))) = activities c"
  by (auto simp add: intervalTick_def Let_def)

lemma page_inv_mounted: "page_inv (mounted now)"
  by (simp add: page_inv_def mounted_def initialForm_def normalized_DEFAULT_ACTIVITIES
      configure_def newMQTTService_def)

lemma page_inv_startCollection: "page_inv a \<Longrightarrow> page_inv (startCollection a)"
  by (auto simp add: page_inv_def startCollection_def connect_def)

lemma page_inv_stopCollection: "page_inv a \<Longrightarrow> page_inv (stopCollection a)"
  using onMessageCallback_disconnect [of "mqttService a"]
  by (auto simp add: page_inv_def stopCollection_def)

lemma page_inv_pageTimeoutFires: "page_inv a \<Longrightarrow> page_inv (pageTimeoutFires p a)"
  by (auto simp add: page_inv_def pageTimeoutFires_def Let_def split: option.split)

lemma page_inv_pageIntervalTick: "page_inv a \<Longrightarrow> page_inv (pageIntervalTick h rnd now a)"
  by (simp add: page_inv_def pageIntervalTick_def Let_def activities_intervalTick)

lemma page_inv_step: "page_inv a \<Longrightarrow> page_inv (step e a)"
proof (cases e)
  case StartCollection
  then show "page_inv a \<Longrightarrow> ?thesis" by (simp add: page_inv_startCollection)
next
  case StopCollection
  then show "page_inv a \<Longrightarrow> ?thesis" by (simp add: page_inv_stopCollection)
next
  case AddNewActivity
  then show "page_inv a \<Longrightarrow> ?thesis" by (simp add: page_inv_def normalized_addNewActivity)
next
  case Cleanup
  then show "page_inv a \<Longrightarrow> ?thesis"
    using onMessageCallback_disconnect [of "mqttService a"] by (auto simp add: page_inv_def)
next
  case (TimeoutFires p)
  then show "page_inv a \<Longrightarrow> ?thesis" by (simp add: page_inv_pageTimeoutFires)
next
  case (IntervalTick h rnd now)
  then show "page_inv a \<Longrightarrow> ?thesis" by (simp add: page_inv_pageIntervalTick)
qed (simp_all add: page_inv_def)

lemma page_inv_run: "page_inv a \<Longrightarrow> page_inv (run es a)"
  by (induction es arbitrary: a) (simp_all add: page_inv_step)

text \<open>
  C10. The default activities are trimmed and in lower case, and so is every entry of
  \<^verbatim>\<open>activities\<close> in every state the page reaches from its first render, whatever the
  user does and whichever timers fire.
\<close>

theorem activities_stay_normalized:
  "(\<forall>x \<in> set DEFAULT_ACTIVITIES. trim x = x \<and> toLowerCase x = x)
   \<and> (\<forall>x \<in> set (activities (form (run es (mounted now)))). trim x = x \<and> toLowerCase x = x)"
  using normalized_DEFAULT_ACTIVITIES page_inv_run [OF page_inv_mounted, of es now]
  by (simp add: page_inv_def normalized_def)

theorem activities_stay_normalized_witness:
  "''running'' \<in> set (activities (form (run [SetNewActivity '' Running '', AddNewActivity] (mounted 0))))
   \<and> trim ''running'' = ''running'' \<and> toLowerCase ''running'' = ''running''"
proof -
  have t: "toLowerCase (trim '' Running '') = ''running''"
    by (simp add: trim_def isWhiteSpace_def toLowerCase_def lowerChar_def char_of_eq_iff)
  have n: "trim '' Running '' \<noteq> []"
    by (simp add: trim_def isWhiteSpace_def)
  have m: "''running'' \<in> set (activities (form (run [SetNewActivity '' Running '', AddNewActivity] (mounted 0))))"
    by (simp add: mounted_def initialForm_def DEFAULT_ACTIVITIES_def addNewActivity_def toast_def t n)
  from activities_stay_normalized [of "[SetNewActivity '' Running '', AddNewActivity]" 0]
  have "\<forall>x \<in> set (activities (form (run [SetNewActivity '' Running '', AddNewActivity] (mounted 0)))).
      trim x = x \<and> toLowerCase x = x" ..
  from bspec [OF this m] m show ?thesis by (rule_tac conjI)
qed


section \<open>Connecting and disconnecting\<close>

lemmas service_defs = configuredService_def connectingService_def connectedService_def
  configure_def newMQTTService_def connect_def timeoutFires_def onConnect_def
  startMockDataGeneration_def disconnect_def intervalTick_def observe_def Let_def

text \<open>
  C6. \<^verbatim>\<open>disconnect\<close> on a service that is not connected changes nothing, a second
  \<^verbatim>\<open>disconnect\<close> changes nothing after the first, and the service is then not
  connected; the promise resolves in both branches. The same holds of \<^verbatim>\<open>disconnectMqtt\<close>
  and the module's client.
\<close>

theorem disconnect_idempotent:
  "(\<not> isConnected s \<longrightarrow> disconnect s = s)
   \<and> disconnect (disconnect s) = disconnect s
   \<and> (client s \<noteq> None \<longrightarrow> \<not> isConnected (disconnect s))
   \<and> (moduleClient m = None \<longrightarrow> disconnectMqtt m = m)
   \<and> disconnectMqtt (disconnectMqtt m) = disconnectMqtt m
   \<and> moduleClient (disconnectMqtt m) = None"
  by (simp add: disconnect_def disconnectMqtt_def split: option.split)

theorem disconnect_idempotent_witness:
  "isConnected connectedService
   \<and> client connectedService \<noteq> None
   \<and> \<not> isConnected (disconnect connectedService)
   \<and> disconnect (disconnect connectedService) = disconnect connectedService
   \<and> moduleClient emptyModule = None
   \<and> disconnectMqtt emptyModule = emptyModule"
proof -
  have c: "isConnected connectedService" "client connectedService \<noteq> None"
    by (simp_all add: service_defs)
  have e: "moduleClient emptyModule = None"
    by (simp add: emptyModule_def)
  from disconnect_idempotent [of connectedService emptyModule] c e show ?thesis
    by simp
qed

text \<open>
  C3, as the code has it. Without a configuration \<^verbatim>\<open>connect\<close> is rejected with
  "MQTT not configured" and changes nothing: no observer, no timer. The generator is
  what \<^verbatim>\<open>connect\<close> uses when there is a configuration: the promise is pending, the
  connection timer resolves it and connects, and the interval callback then passes a
  generated sample to the observer.
\<close>

theorem connect_needs_config:
  "(config s = None \<longrightarrow> connect cb s = (Inl (Error ''MQTT not configured''), s))
   \<and> (config s \<noteq> None \<longrightarrow>
        fst (connect cb s) = Inr (nextHandle s)
      \<and> nextHandle s \<in> set (resolved (timeoutFires (nextHandle s) (snd (connect cb s))))
      \<and> isConnected (timeoutFires (nextHandle s) (snd (connect cb s)))
      \<and> snd (intervalTick (Suc (nextHandle s)) rnd now
               (timeoutFires (nextHandle s) (snd (connect cb s)), ob))
          = cb (mockData rnd now) ob)"
  by (simp add: connect_def timeoutFires_def onConnect_def startMockDataGeneration_def
      intervalTick_def Let_def)

theorem connect_needs_config_witness:
  "config (disconnect (newMQTTService :: SensorData list MQTTService)) = None
   \<and> fst (connect observe (disconnect newMQTTService)) = Inl (Error ''MQTT not configured'')
   \<and> config configuredService \<noteq> None
   \<and> snd (intervalTick 1 halves 1500 (timeoutFires 0 (snd (connect observe configuredService)), []))
       = [mockData halves 1500]"
proof -
  have n: "config (disconnect (newMQTTService :: SensorData list MQTTService)) = None"
    by (simp add: service_defs)
  have c: "config configuredService \<noteq> None" "nextHandle configuredService = 0"
    by (simp_all add: service_defs)
  from connect_needs_config [of "disconnect newMQTTService" observe]
    connect_needs_config [of configuredService observe halves 1500 "[]"] n c
  show ?thesis by (simp add: observe_def)
qed

text \<open>
  The claim C3 as stated fails on a new service, which has no configuration: the promise
  is rejected, the service is not connected, and nothing is scheduled.
\<close>

theorem connect_unconfigured_counterexample:
  "fst (connect observe newMQTTService) = Inl (Error ''MQTT not configured'')
   \<and> \<not> isConnected (snd (connect observe newMQTTService))
   \<and> onMessageCallback (snd (connect observe newMQTTService)) = None
   \<and> timeouts (snd (connect observe newMQTTService)) = []
   \<and> intervals (snd (connect observe newMQTTService)) = []"
  by (simp add: connect_def newMQTTService_def)

text \<open>
  C4, as the code has it. A \<^verbatim>\<open>connect\<close> called while another is in flight (its timer
  pending) is not rejected: with a configuration it returns a pending promise of its
  own, replaces the observer and adds its own timer behind the first.
\<close>

theorem second_connect_accepted:
  assumes "config s \<noteq> None" and "timeouts s \<noteq> []"
  shows "fst (connect cb s) = Inr (nextHandle s)
       \<and> onMessageCallback (snd (connect cb s)) = Some cb
       \<and> timeouts (snd (connect cb s)) = timeouts s @ [nextHandle s]"
  using assms by (simp add: connect_def)

theorem second_connect_accepted_witness:
  "config connectingService \<noteq> None \<and> timeouts connectingService = [0]
   \<and> fst (connect observe connectingService) = Inr 1
   \<and> timeouts (snd (connect observe connectingService)) = [0, 1]"
proof -
  have c: "config connectingService \<noteq> None" "timeouts connectingService = [0]"
    "nextHandle connectingService = 1"
    by (simp_all add: service_defs)
  then have "timeouts connectingService \<noteq> []" by simp
  from second_connect_accepted [OF c(1) this, of observe] c show ?thesis by simp
qed

text \<open>
  The claim C4 as stated fails on the service with one \<^verbatim>\<open>connect\<close> in flight: the
  second call returns a pending promise, both promises are resolved by their timers, and
  two generators run.
\<close>

theorem second_connect_counterexample:
  "timeouts connectingService = [0]
   \<and> resolved connectingService = []
   \<and> fst (connect observe connectingService) = Inr 1
   \<and> resolved (timeoutFires 1 (timeoutFires 0 (snd (connect observe connectingService)))) = [0, 1]
   \<and> intervals (timeoutFires 1 (timeoutFires 0 (snd (connect observe connectingService)))) = [2, 3]"
  by (simp add: service_defs)

section \<open>Deliveries after \<^verbatim>\<open>disconnect\<close>\<close>

lemma timerStep_without_callback:
  assumes "onMessageCallback (fst so) = None"
  shows "onMessageCallback (fst (timerStep t so)) = None \<and> snd (timerStep t so) = snd so"
proof (cases t)
  case (Fire p)
  with assms show ?thesis by simp
next
  case (Tick h rnd now)
  with assms show ?thesis by (simp add: intervalTick_def Let_def)
qed

lemma timers_without_callback:
  "onMessageCallback (fst so) = None \<Longrightarrow> snd (timers ts so) = snd so"
proof (induction ts arbitrary: so)
  case Nil
  show ?case by simp
next
  case (Cons t ts)
  from timerStep_without_callback [OF Cons.prems, of t]
  have n: "onMessageCallback (fst (timerStep t so)) = None" and s: "snd (timerStep t so) = snd so"
    by simp_all
  have "snd (timers ts (timerStep t so)) = snd (timerStep t so)"
    by (rule Cons.IH [OF n])
  with s show ?case by simp
qed

lemma disconnect_when_connected_stops_delivery:
  assumes "client s \<noteq> None" and "isConnected s"
  shows "snd (timers ts (disconnect s, ob)) = ob"
proof -
  have "onMessageCallback (fst (disconnect s, ob)) = None"
    using assms by (simp add: disconnect_def)
  then have "snd (timers ts (disconnect s, ob)) = snd (disconnect s, ob)"
    by (rule timers_without_callback)
  then show ?thesis by simp
qed

text \<open>
  C5 fails when \<^verbatim>\<open>disconnect\<close> is called while \<^verbatim>\<open>connect\<close> is in flight. The service is
  not connected yet, so \<^verbatim>\<open>disconnect\<close> resolves without touching the pending timer or
  the observer; the timer then fires, starts the generator and connects, and every tick
  calls the observer. (On a connected service \<^verbatim>\<open>disconnect\<close> does stop the deliveries:
  \<open>disconnect_when_connected_stops_delivery\<close>.)
\<close>

theorem disconnect_while_connecting_still_delivers:
  "\<not> isConnected connectingService
   \<and> timeouts (disconnect connectingService) = [0]
   \<and> snd (intervalTick 1 halves 1500 (timeoutFires 0 (disconnect connectingService), []))
      = [mockData halves 1500]
   \<and> snd (intervalTick 1 halves 2500
           (intervalTick 1 halves 1500 (timeoutFires 0 (disconnect connectingService), [])))
      = [mockData halves 1500, mockData halves 2500]"
  by (simp add: service_defs)


theorem disconnect_while_connecting_still_delivers_witness:
  "length (snd (intervalTick 1 halves 2500
           (intervalTick 1 halves 1500 (timeoutFires 0 (disconnect connectingService), [])))) = 2"
  using disconnect_while_connecting_still_delivers by simp

section \<open>The generated samples\<close>

lemma randomValue_in_range: "0 \<le> r \<Longrightarrow> r < 1 \<Longrightarrow> - 10 \<le> randomValue r \<and> randomValue r \<le> 10"
  by (simp add: randomValue_def)

lemma randomValue_rounded_in_range:
  assumes "mono fl" and "fl 0 = 0" and "fl 20 = 20" and "fl (- 10) = - 10" and "fl 10 = 10"
    and "0 \<le> r" and "r < 1"
  shows "- 10 \<le> randomValue_rounded fl r \<and> randomValue_rounded fl r \<le> 10"
proof -
  have p: "0 \<le> r * 20" and q: "r * 20 \<le> 20"
    using assms(6,7) by simp_all
  have "fl 0 \<le> fl (r * 20)"
    by (rule monoD [OF assms(1) p])
  then have p': "- 10 \<le> fl (r * 20) - 10"
    unfolding assms(2) by simp
  have "fl (r * 20) \<le> fl 20"
    by (rule monoD [OF assms(1) q])
  then have q': "fl (r * 20) - 10 \<le> 10"
    unfolding assms(3) by simp
  have "fl (- 10) \<le> fl (fl (r * 20) - 10)"
    by (rule monoD [OF assms(1) p'])
  moreover have "fl (fl (r * 20) - 10) \<le> fl 10"
    by (rule monoD [OF assms(1) q'])
  ultimately show ?thesis
    unfolding assms(4,5) randomValue_rounded_def by (rule conjI)
qed

text \<open>
  C9. If each of the six draws is in \<open>[0, 1)\<close>, as \<^verbatim>\<open>Math.random()\<close> promises, each of
  the six axis values of the generated sample is in \<open>[-10, 10]\<close>. (By
  \<open>randomValue_rounded_in_range\<close> the bounds also hold with a monotone rounding of each
  operation that leaves 0, 20, -10 and 10 as they are, as that of floating-point
  arithmetic does.)
\<close>

theorem mockData_axes_in_range:
  assumes "\<forall>k<6. 0 \<le> rnd k \<and> rnd k < 1"
  shows "- 10 \<le> xyz_x (acceleration (mockData rnd now)) \<and> xyz_x (acceleration (mockData rnd now)) \<le> 10
       \<and> - 10 \<le> xyz_y (acceleration (mockData rnd now)) \<and> xyz_y (acceleration (mockData rnd now)) \<le> 10
       \<and> - 10 \<le> xyz_z (acceleration (mockData rnd now)) \<and> xyz_z (acceleration (mockData rnd now)) \<le> 10
       \<and> - 10 \<le> xyz_x (gyroscope (mockData rnd now)) \<and> xyz_x (gyroscope (mockData rnd now)) \<le> 10
       \<and> - 10 \<le> xyz_y (gyroscope (mockData rnd now)) \<and> xyz_y (gyroscope (mockData rnd now)) \<le> 10
       \<and> - 10 \<le> xyz_z (gyroscope (mockData rnd now)) \<and> xyz_z (gyroscope (mockData rnd now)) \<le> 10"
proof -
  have "0 \<le> rnd k \<and> rnd k < 1" if "k < 6" for k
    using assms that by simp
  then have "- 10 \<le> randomValue (rnd k) \<and> randomValue (rnd k) \<le> 10" if "k < 6" for k
    using that by (simp add: randomValue_in_range)
  from this [of 0] this [of 1] this [of 2] this [of 3] this [of 4] this [of 5]
  show ?thesis by (simp add: mockData_def)
qed

theorem mockData_axes_in_range_witness:
  "0 \<le> halves 0 \<and> halves 0 < 1 \<and> 0 \<le> halves 5 \<and> halves 5 < 1
   \<and> xyz_x (acceleration (mockData halves 1500)) = 0
   \<and> - 10 \<le> xyz_x (acceleration (mockData halves 1500))
   \<and> xyz_z (gyroscope (mockData halves 1500)) \<le> 10"
proof -
  have h: "\<forall>k<6. 0 \<le> halves k \<and> halves k < 1"
    by (simp add: halves_def)
  from mockData_axes_in_range [OF h, of 1500] h show ?thesis
    by (simp add: mockData_def randomValue_def halves_def)
qed


end
